theory Spec2Isabelle
  imports Main "HOL-Library.Sublist"
begin

section \<open>Events: the data model (events.types.ts)\<close>

text \<open>
  \<^verbatim>\<open>interface EventBody\<close>: the body of an event as the caller sends it. The field is
  spelled \<^verbatim>\<open>tittle\<close> in the source.
\<close>

record EventBody =
  tittle :: string
  slug :: string
  description :: string
  location :: string
  date :: string
  time :: string
  rsvpEndDate :: string
  createdBy :: string

text \<open>\<^verbatim>\<open>interface RawEventBody extends EventBody { id: string }\<close>: a row of the table.\<close>

record RawEventBody = EventBody +
  id' :: string

text \<open>\<^verbatim>\<open>enum EventLookUpKey { ID = 'id', SLUG = 'slug' }\<close> and the string each member stands for.\<close>

datatype EventLookUpKey = ID | SLUG

fun lookup_key_string :: "EventLookUpKey \<Rightarrow> string" where
  "lookup_key_string ID = ''id''"
| "lookup_key_string SLUG = ''slug''"

text \<open>\<^verbatim>\<open>interface UpdateEventBody\<close>: every field optional; \<open>None\<close> is an absent field.\<close>

record UpdateEventBody =
  upd_tittle :: "string option"
  upd_slug :: "string option"
  upd_description :: "string option"
  upd_location :: "string option"
  upd_date :: "string option"
  upd_time :: "string option"
  upd_rsvpEndDate :: "string option"
  upd_createdBy :: "string option"

text \<open>
  The filter body is a JavaScript object that the composer reads by property name
  (\<^verbatim>\<open>filterBody.location\<close>, \<^verbatim>\<open>filterBody.title\<close>, \<^verbatim>\<open>filterBody.q\<close>, ...). It is modelled as
  the list of its own properties in insertion order; reading a property that is not
  there gives \<^verbatim>\<open>undefined\<close>, here \<open>None\<close>.
\<close>

type_synonym EventsFilter = "(string \<times> string) list"

definition prop_of :: "EventsFilter \<Rightarrow> string \<Rightarrow> string option" where
  "prop_of filterBody name = map_of filterBody name"

text \<open>
  JavaScript truthiness of a value that is a string or \<^verbatim>\<open>undefined\<close>: \<^verbatim>\<open>undefined\<close> and
  the empty string are falsy.
\<close>

fun truthy :: "string option \<Rightarrow> bool" where
  "truthy None = False"
| "truthy (Some s) = (s \<noteq> [])"

text \<open>
  \<^verbatim>\<open>enum EventsFilterFields { TITTLE = 'tittle', DESCRIPTION = 'description',
  LOCATION = 'location' }\<close>, as the object it is at run time: reading a member the enum
  does not declare gives \<^verbatim>\<open>undefined\<close>.
\<close>

definition EventsFilterFields :: "string \<Rightarrow> string option" where
  "EventsFilterFields member =
     map_of [(''TITTLE'', ''tittle''), (''DESCRIPTION'', ''description''),
             (''LOCATION'', ''location'')] member"

section \<open>The query builder\<close>

text \<open>
  A query under construction: the table, the conditions of its where clause in the
  order they were added, and the offset and limit, which are JavaScript numbers that
  the builder takes as they come (here the integers, negative ones included). A basic
  condition compares a column
  with a value that is sent to the database as a binding; a raw condition is a piece of
  SQL text together with the bindings for its placeholders. Column and value are
  JavaScript values that may be \<^verbatim>\<open>undefined\<close>.
\<close>

datatype where_statement =
    WhereBasic "string option" "string option"
  | WhereRaw string "string list"

record QueryBuilder =
  qb_table :: string
  qb_wheres :: "where_statement list"
  qb_offset :: "int option"
  qb_limit :: "int option"

type_synonym QueryBuilderFunction = "QueryBuilder \<Rightarrow> QueryBuilder"

definition EVENTS_TABLE :: string where
  "EVENTS_TABLE = ''events''"

definition knexInstance :: "string \<Rightarrow> QueryBuilder" where
  "knexInstance table = \<lparr>qb_table = table, qb_wheres = [], qb_offset = None, qb_limit = None\<rparr>"

definition knex_where :: "string option \<Rightarrow> string option \<Rightarrow> QueryBuilderFunction" where
  "knex_where col val query = query\<lparr>qb_wheres := qb_wheres query @ [WhereBasic col val]\<rparr>"

definition knex_whereRaw :: "string \<Rightarrow> string list \<Rightarrow> QueryBuilderFunction" where
  "knex_whereRaw sql bindings query =
     query\<lparr>qb_wheres := qb_wheres query @ [WhereRaw sql bindings]\<rparr>"




definition knex_first :: QueryBuilderFunction where
  "knex_first query = query\<lparr>qb_limit := Some 1\<rparr>"

section \<open>The query filter composer (EventsResourceImplementation)\<close>

text \<open>What a template literal puts in the place of a value that is a string or \<^verbatim>\<open>undefined\<close>.\<close>

fun interpolate :: "string option \<Rightarrow> string" where
  "interpolate None = ''undefined''"
| "interpolate (Some s) = s"

text \<open>
  \<^verbatim>\<open>documentVector\<close> builds the SQL text of the condition from the query string with a
  template literal and passes no bindings.
\<close>

definition documentVector :: "string option \<Rightarrow> QueryBuilderFunction" where
  "documentVector queryString =
     (\<lambda>query. knex_whereRaw
        (''document @@ to_tsquery('' @ [CHR 0x27] @ interpolate queryString @ [CHR 0x27] @ '')'')
        [] query)"

definition filterbyField :: "string option \<Rightarrow> string option \<Rightarrow> QueryBuilderFunction" where
  "filterbyField field val = (\<lambda>query. knex_where field val query)"

definition filterByDateEqualTo :: "string option \<Rightarrow> string option \<Rightarrow> QueryBuilderFunction" where
  "filterByDateEqualTo dateField dat = (\<lambda>query. knex_where dateField dat query)"

text \<open>\<^verbatim>\<open>Array.prototype.push\<close> on the array of transforms.\<close>

definition push :: "'a list \<Rightarrow> 'a \<Rightarrow> 'a list" where
  "push xs x = xs @ [x]"

text \<open>
  \<^verbatim>\<open>getQueryBuilderFunctions\<close>: five tests in sequence, each pushing one transform. The
  fourth test reads \<^verbatim>\<open>filterBody.rsvpEndDate\<close> and pushes a condition on the value of
  \<^verbatim>\<open>filterBody.date\<close>; the second names the member \<^verbatim>\<open>TITLE\<close> of \<^verbatim>\<open>EventsFilterFields\<close>.
\<close>

definition getQueryBuilderFunctions :: "EventsFilter \<Rightarrow> QueryBuilderFunction list" where
  "getQueryBuilderFunctions filterBody =
     (let fs0 = [];
          fs1 = (if truthy (prop_of filterBody ''location'')
                 then push fs0 (filterbyField (EventsFilterFields ''LOCATION'')
                                  (prop_of filterBody ''location''))
                 else fs0);
          fs2 = (if truthy (prop_of filterBody ''title'')
                 then push fs1 (filterbyField (EventsFilterFields ''TITLE'')
                                  (prop_of filterBody ''title''))
                 else fs1);
          fs3 = (if truthy (prop_of filterBody ''date'')
                 then push fs2 (filterByDateEqualTo (Some ''date'') (prop_of filterBody ''date''))
                 else fs2);
          fs4 = (if truthy (prop_of filterBody ''rsvpEndDate'')
                 then push fs3 (filterByDateEqualTo (Some ''rsvpEndDate'')
                                  (prop_of filterBody ''date''))
                 else fs3);
          fs5 = (if truthy (prop_of filterBody ''q'')
                 then push fs4 (documentVector (prop_of filterBody ''q''))
                 else fs4)
      in fs5)"

text \<open>
  Modelled from the spec: \<^verbatim>\<open>pipe\<close> of \<^verbatim>\<open>lib/util/functionalUtils\<close>, which is not among the
  sources. The spec: a single function that, given a base query, returns the query with
  all listed transforms applied in order; each transform receives the query produced by
  the previous one; no transform gives the identity.
\<close>

primrec pipe :: "('a \<Rightarrow> 'a) list \<Rightarrow> 'a \<Rightarrow> 'a" where
  "pipe [] x = x"
| "pipe (f # fs) x = pipe fs (f x)"

section \<open>The storage behind the query builder\<close>

text \<open>
  The failures an operation of the resource can end with: the resource's own
  \<^verbatim>\<open>EventNotFountError\<close> (message and optional status code), and the failures that come
  from the query builder and the database, which the resource passes on unchanged.
\<close>

datatype query_failure =
    UndefinedBinding
  | UnknownColumn string
  | UnknownTable string
  | RawRejected string
  | NegativeOffset
  | NegativeLimit
  | EmptyUpdate
  | DuplicateKey string

datatype error =
    EventNotFountError string "nat option"
  | QueryError query_failure

text \<open>
  The database: the rows of the events table in storage order, the generator of
  identifiers for new rows (a sequence and the rendering of its values), and the
  database's reading of a raw condition: for a SQL text and its bindings either the
  predicate on rows it denotes, or \<open>None\<close> when the database rejects the text.
\<close>

record database =
  events :: "RawEventBody list"
  id_seq :: nat
  id_gen :: "nat \<Rightarrow> string"
  raw_condition :: "string \<Rightarrow> string list \<Rightarrow> (RawEventBody \<Rightarrow> bool) option"

text \<open>The columns of the events table, by name.\<close>

definition column :: "string \<Rightarrow> (RawEventBody \<Rightarrow> string) option" where
  "column name =
     map_of [(''id'', id'), (''tittle'', tittle), (''slug'', slug),
             (''description'', description), (''location'', location), (''date'', date),
             (''time'', time), (''rsvpEndDate'', rsvpEndDate), (''createdBy'', createdBy)] name"

text \<open>
  The query builder refuses to compile a query one of whose where conditions binds
  \<^verbatim>\<open>undefined\<close>; this happens before anything is sent to the database.
\<close>

fun binds_undefined :: "where_statement \<Rightarrow> bool" where
  "binds_undefined (WhereBasic col None) = True"
| "binds_undefined (WhereBasic col (Some v)) = False"
| "binds_undefined (WhereRaw sql bindings) = False"

text \<open>
  The database's reading of one condition: a basic condition holds of the rows whose
  column equals the bound value, and needs a column of the table.
\<close>

fun compile_where :: "database \<Rightarrow> where_statement \<Rightarrow> error + (RawEventBody \<Rightarrow> bool)" where
  "compile_where db (WhereBasic col None) = Inl (QueryError UndefinedBinding)"
| "compile_where db (WhereBasic None (Some v)) = Inl (QueryError (UnknownColumn ''undefined''))"
| "compile_where db (WhereBasic (Some c) (Some v)) =
     (case column c of
        None \<Rightarrow> Inl (QueryError (UnknownColumn c))
      | Some get \<Rightarrow> Inr (\<lambda>row. get row = v))"
| "compile_where db (WhereRaw sql bindings) =
     (case raw_condition db sql bindings of
        None \<Rightarrow> Inl (QueryError (RawRejected sql))
      | Some p \<Rightarrow> Inr p)"

text \<open>The conditions of a where clause are joined by AND; the first one rejected fails the query.\<close>

fun compile_wheres :: "database \<Rightarrow> where_statement list \<Rightarrow> error + (RawEventBody \<Rightarrow> bool)" where
  "compile_wheres db [] = Inr (\<lambda>row. True)"
| "compile_wheres db (w # ws) =
     (case compile_where db w of
        Inl e \<Rightarrow> Inl e
      | Inr p \<Rightarrow>
          (case compile_wheres db ws of
             Inl e \<Rightarrow> Inl e
           | Inr ps \<Rightarrow> Inr (\<lambda>row. p row \<and> ps row)))"

text \<open>
  The predicate a query selects rows by, or the failure the query ends with: an
  undefined binding anywhere, a table other than the events table, or a condition the
  database rejects.
\<close>

definition selection :: "database \<Rightarrow> QueryBuilder \<Rightarrow> error + (RawEventBody \<Rightarrow> bool)" where
  "selection db query =
     (if list_ex binds_undefined (qb_wheres query) then Inl (QueryError UndefinedBinding)
      else if qb_table query \<noteq> EVENTS_TABLE then Inl (QueryError (UnknownTable (qb_table query)))
      else compile_wheres db (qb_wheres query))"

text \<open>
  A query with a negative offset or a negative limit is refused: the offset is looked
  at first, then the limit.
\<close>

definition paging_failure :: "QueryBuilder \<Rightarrow> query_failure option" where
  "paging_failure query =
     (if (case qb_offset query of None \<Rightarrow> False | Some n \<Rightarrow> n < 0) then Some NegativeOffset
      else if (case qb_limit query of None \<Rightarrow> False | Some n \<Rightarrow> n < 0) then Some NegativeLimit
      else None)"

text \<open>Offset and limit of a query, applied to the rows it selects.\<close>

definition page :: "QueryBuilder \<Rightarrow> 'a list \<Rightarrow> 'a list" where
  "page query rows =
     (let skipped = (case qb_offset query of None \<Rightarrow> rows | Some n \<Rightarrow> drop (nat n) rows)
      in case qb_limit query of None \<Rightarrow> skipped | Some n \<Rightarrow> take (nat n) skipped)"

text \<open>Awaiting a select query: the selected rows in storage order, paged.\<close>

definition select_rows :: "database \<Rightarrow> QueryBuilder \<Rightarrow> error + RawEventBody list" where
  "select_rows db query =
     (case selection db query of
        Inl e \<Rightarrow> Inl e
      | Inr p \<Rightarrow>
          (case paging_failure query of
             Some failure \<Rightarrow> Inl (QueryError failure)
           | None \<Rightarrow> Inr (page query (filter p (events db)))))"

text \<open>\<^verbatim>\<open>xs[0]\<close> on a JavaScript array: the first element, or \<^verbatim>\<open>undefined\<close> when there is none.\<close>

fun index0 :: "'a list \<Rightarrow> 'a option" where
  "index0 [] = None"
| "index0 (x # xs) = Some x"

text \<open>
  Awaiting a query ended with \<^verbatim>\<open>.first()\<close>: the first selected row, or \<^verbatim>\<open>undefined\<close>
  when the query selects none.
\<close>

definition first_row :: "database \<Rightarrow> QueryBuilder \<Rightarrow> error + RawEventBody option" where
  "first_row db query =
     (case select_rows db query of
        Inl e \<Rightarrow> Inl e
      | Inr rows \<Rightarrow> Inr (index0 rows))"

text \<open>
  \<^verbatim>\<open>.insert(eventBody, '*')\<close>: the database gives the new row the next identifier of its
  generator, refuses an identifier the table already holds, and returns the inserted rows.
\<close>

definition new_row :: "string \<Rightarrow> EventBody \<Rightarrow> RawEventBody" where
  "new_row ident body =
     \<lparr>tittle = tittle body, slug = slug body, description = description body,
      location = location body, date = date body, time = time body,
      rsvpEndDate = rsvpEndDate body, createdBy = createdBy body, id' = ident\<rparr>"

definition insert_returning ::
  "database \<Rightarrow> QueryBuilder \<Rightarrow> EventBody \<Rightarrow> error + (database \<times> RawEventBody list)" where
  "insert_returning db query body =
     (if qb_table query \<noteq> EVENTS_TABLE then Inl (QueryError (UnknownTable (qb_table query)))
      else
        (let ident = id_gen db (id_seq db) in
         if ident \<in> set (map id' (events db)) then Inl (QueryError (DuplicateKey ident))
         else
           (let row = new_row ident body in
            Inr (db\<lparr>events := events db @ [row], id_seq := Suc (id_seq db)\<rparr>, [row]))))"

text \<open>
  \<^verbatim>\<open>.update(updateBody)\<close> writes the fields that are present in the body and leaves the
  others; a body with no field present gives no assignment to write, and the update is
  refused.
\<close>

definition has_assignment :: "UpdateEventBody \<Rightarrow> bool" where
  "has_assignment body =
     (upd_tittle body \<noteq> None \<or> upd_slug body \<noteq> None \<or> upd_description body \<noteq> None \<or>
      upd_location body \<noteq> None \<or> upd_date body \<noteq> None \<or> upd_time body \<noteq> None \<or>
      upd_rsvpEndDate body \<noteq> None \<or> upd_createdBy body \<noteq> None)"

definition assign :: "string option \<Rightarrow> string \<Rightarrow> string" where
  "assign new old = (case new of None \<Rightarrow> old | Some v \<Rightarrow> v)"

definition apply_update :: "UpdateEventBody \<Rightarrow> RawEventBody \<Rightarrow> RawEventBody" where
  "apply_update body row =
     row\<lparr>tittle := assign (upd_tittle body) (tittle row),
         slug := assign (upd_slug body) (slug row),
         description := assign (upd_description body) (description row),
         location := assign (upd_location body) (location row),
         date := assign (upd_date body) (date row),
         time := assign (upd_time body) (time row),
         rsvpEndDate := assign (upd_rsvpEndDate body) (rsvpEndDate row),
         createdBy := assign (upd_createdBy body) (createdBy row)\<rparr>"

definition update_returning ::
  "database \<Rightarrow> UpdateEventBody \<Rightarrow> QueryBuilder \<Rightarrow> error + (database \<times> RawEventBody list)" where
  "update_returning db body query =
     (if \<not> has_assignment body then Inl (QueryError EmptyUpdate)
      else
        (case selection db query of
           Inl e \<Rightarrow> Inl e
         | Inr p \<Rightarrow>
             Inr (db\<lparr>events := map (\<lambda>row. if p row then apply_update body row else row) (events db)\<rparr>,
                  map (apply_update body) (filter p (events db)))))"

text \<open>\<^verbatim>\<open>.delete()\<close> removes the rows the query selects.\<close>

definition delete_rows :: "database \<Rightarrow> QueryBuilder \<Rightarrow> error + database" where
  "delete_rows db query =
     (case selection db query of
        Inl e \<Rightarrow> Inl e
      | Inr p \<Rightarrow> Inr (db\<lparr>events := filter (\<lambda>row. \<not> p row) (events db)\<rparr>))"

section \<open>The events resource (EventsResourceImplementation)\<close>

text \<open>
  Each operation takes the database and returns the failure it ends with or its
  result; an operation that writes returns the database after it as well.
\<close>

definition create :: "database \<Rightarrow> EventBody \<Rightarrow> error + (database \<times> RawEventBody option)" where
  "create db eventBody =
     (case insert_returning db (knexInstance EVENTS_TABLE) eventBody of
        Inl e \<Rightarrow> Inl e
      | Inr (db', created) \<Rightarrow> Inr (db', index0 created))"

text \<open>
  In \<^verbatim>\<open>getEvent\<close> the constant \<^verbatim>\<open>event\<close> is the query itself, not yet awaited; a query is
  an object, and every object is truthy. The value returned from the async function is
  then awaited.
\<close>

definition truthy_object :: "QueryBuilder \<Rightarrow> bool" where
  "truthy_object query = True"

definition getEvent :: "database \<Rightarrow> EventLookUpKey \<Rightarrow> string \<Rightarrow> error + RawEventBody option" where
  "getEvent db lookupKey val =
     (let event = knex_first (knex_where (Some (lookup_key_string lookupKey)) (Some val)
                                (knexInstance EVENTS_TABLE))
      in if \<not> truthy_object event
         then Inl (EventNotFountError
                     (''no event with '' @ lookup_key_string lookupKey @ '' '' @ val @ '' found'')
                     None)
         else first_row db event)"

definition filterEvents :: "database \<Rightarrow> EventsFilter \<Rightarrow> error + RawEventBody list" where
  "filterEvents db filterBody =
     (let baseQuey = knexInstance EVENTS_TABLE;
          queryBuilderFunctions = getQueryBuilderFunctions filterBody;
          queryBuilder = pipe queryBuilderFunctions;
          query = queryBuilder baseQuey
      in select_rows db query)"


definition update ::
  "database \<Rightarrow> UpdateEventBody \<Rightarrow> string \<Rightarrow> error + (database \<times> RawEventBody option)" where
  "update db updateBody eventId =
     (case update_returning db updateBody
             (knex_where (Some ''id'') (Some eventId) (knexInstance EVENTS_TABLE)) of
        Inl e \<Rightarrow> Inl e
      | Inr (db', updatedEvent) \<Rightarrow> Inr (db', index0 updatedEvent))"

definition delete :: "database \<Rightarrow> string \<Rightarrow> error + database" where
  "delete db eventId =
     delete_rows db (knex_where (Some ''id'') (Some eventId) (knexInstance EVENTS_TABLE))"

section \<open>Configuration (config/index.ts)\<close>

text \<open>
  The process environment maps variable names to strings; a variable that is not set
  reads as \<^verbatim>\<open>undefined\<close>. The schema validator reports, for the first key that fails in
  the order of the schema, the key and the reason.
\<close>

type_synonym environment = "string \<rightharpoonup> string"

datatype joi_reason = AnyRequired | StringEmpty | NumberBase

datatype config_error = ConfigValidationError string joi_reason

text \<open>
  \<^verbatim>\<open>joi.string().allow(values)\<close>: a value on the allow list is accepted before any other
  rule is looked at; any other string is accepted unless it is empty. The list adds to
  the accepted values, it does not restrict them.
\<close>

definition joi_string :: "string list \<Rightarrow> string \<Rightarrow> joi_reason + string" where
  "joi_string allowed s =
     (if s \<in> set allowed then Inr s
      else if s = [] then Inl StringEmpty
      else Inr s)"

text \<open>
  \<^verbatim>\<open>joi.number()\<close> converts the string it is given; the conversion is a parameter,
  \<open>None\<close> where the string is not a number.
\<close>

definition joi_number :: "(string \<Rightarrow> 'n option) \<Rightarrow> string \<Rightarrow> joi_reason + 'n" where
  "joi_number to_number s = (case to_number s of None \<Rightarrow> Inl NumberBase | Some n \<Rightarrow> Inr n)"

definition nullable :: "(string \<Rightarrow> joi_reason + 'a) \<Rightarrow> string \<Rightarrow> joi_reason + 'a option" where
  "nullable rule s = (case rule s of Inl r \<Rightarrow> Inl r | Inr v \<Rightarrow> Inr (Some v))"

definition joi_required :: "(string \<Rightarrow> joi_reason + 'a) \<Rightarrow> string option \<Rightarrow> joi_reason + 'a" where
  "joi_required rule v = (case v of None \<Rightarrow> Inl AnyRequired | Some s \<Rightarrow> rule s)"

definition joi_default :: "'a \<Rightarrow> (string \<Rightarrow> joi_reason + 'a) \<Rightarrow> string option \<Rightarrow> joi_reason + 'a" where
  "joi_default d rule v = (case v of None \<Rightarrow> Inr d | Some s \<Rightarrow> rule s)"

definition child ::
  "string \<Rightarrow> (string option \<Rightarrow> joi_reason + 'a) \<Rightarrow> environment \<Rightarrow> config_error + 'a" where
  "child key rule process_env =
     (case rule (process_env key) of
        Inl r \<Rightarrow> Inl (ConfigValidationError key r)
      | Inr v \<Rightarrow> Inr v)"

record 'n EnvVars =
  NODE_ENV :: string
  PORT :: 'n
  DATABASE :: string
  TEST_DB :: string
  DATABASE_DIALECT :: string
  DATABASE_PASSWORD :: "string option"
  DATABASE_USER :: string
  DATABASE_URL :: "string option"
  HOST :: string

text \<open>\<^verbatim>\<open>joi.validate(process.env, envVarsSchema)\<close>; keys the schema does not name are let through.\<close>

definition envVarsSchema ::
  "(string \<Rightarrow> 'n option) \<Rightarrow> environment \<Rightarrow> config_error + ('n::numeral) EnvVars" where
  "envVarsSchema to_number process_env =
     (case child ''NODE_ENV''
             (joi_required (joi_string [''development'', ''production'', ''test'', ''staging'']))
             process_env of
        Inl e \<Rightarrow> Inl e
      | Inr node_env \<Rightarrow>
     (case child ''PORT'' (joi_default 8080 (joi_number to_number)) process_env of
        Inl e \<Rightarrow> Inl e
      | Inr port_number \<Rightarrow>
     (case child ''DATABASE'' (joi_required (joi_string [])) process_env of
        Inl e \<Rightarrow> Inl e
      | Inr db_name \<Rightarrow>
     (case child ''TEST_DB'' (joi_default ''events_test_db'' (joi_string [])) process_env of
        Inl e \<Rightarrow> Inl e
      | Inr test_db \<Rightarrow>
     (case child ''DATABASE_DIALECT'' (joi_default ''postgres'' (joi_string [])) process_env of
        Inl e \<Rightarrow> Inl e
      | Inr dialect \<Rightarrow>
     (case child ''DATABASE_PASSWORD'' (joi_default None (nullable (joi_string []))) process_env of
        Inl e \<Rightarrow> Inl e
      | Inr password \<Rightarrow>
     (case child ''DATABASE_USER'' (joi_required (joi_string [])) process_env of
        Inl e \<Rightarrow> Inl e
      | Inr user \<Rightarrow>
     (case child ''DATABASE_URL'' (joi_default None (nullable (joi_string []))) process_env of
        Inl e \<Rightarrow> Inl e
      | Inr url \<Rightarrow>
     (case child ''HOST'' (joi_required (joi_string [])) process_env of
        Inl e \<Rightarrow> Inl e
      | Inr host_name \<Rightarrow>
          Inr \<lparr>NODE_ENV = node_env, PORT = port_number, DATABASE = db_name, TEST_DB = test_db,
               DATABASE_DIALECT = dialect, DATABASE_PASSWORD = password, DATABASE_USER = user,
               DATABASE_URL = url, HOST = host_name\<rparr>)))))))))"

record 'n Config =
  env :: string
  port :: 'n
  dbName :: string
  testDbName :: string
  dbUsername :: string
  dbDialect :: string
  dbPassword :: "string option"
  databaseUrl :: "string option"
  host :: string

text \<open>
  Loading the module: validation, the throw of \<^verbatim>\<open>Config validation error: ...\<close> when it
  fails, and the exported \<^verbatim>\<open>config\<close> object otherwise.
\<close>

definition config ::
  "(string \<Rightarrow> 'n option) \<Rightarrow> environment \<Rightarrow> config_error + ('n::numeral) Config" where
  "config to_number process_env =
     (case envVarsSchema to_number process_env of
        Inl e \<Rightarrow> Inl e
      | Inr envVars \<Rightarrow>
          Inr \<lparr>env = (if truthy (Some (NODE_ENV envVars)) then NODE_ENV envVars else ''development''),
               port = PORT envVars,
               dbName = DATABASE envVars,
               testDbName = TEST_DB envVars,
               dbUsername = DATABASE_USER envVars,
               dbDialect = DATABASE_DIALECT envVars,
               dbPassword = DATABASE_PASSWORD envVars,
               databaseUrl = DATABASE_URL envVars,
               host = HOST envVars\<rparr>)"

section \<open>Example data\<close>

definition event_A :: RawEventBody where
  "event_A =
     \<lparr>tittle = ''Launch'', slug = ''launch'', description = ''Product launch'',
      location = ''NY'', date = ''2020-01-01'', time = ''10:00'',
      rsvpEndDate = ''2019-12-31'', createdBy = ''u1'', id' = ''i''\<rparr>"

definition event_B :: RawEventBody where
  "event_B =
     \<lparr>tittle = ''Meetup'', slug = ''meetup'', description = ''Monthly meetup'',
      location = ''LA'', date = ''2020-02-02'', time = ''18:30'',
      rsvpEndDate = ''2020-01-31'', createdBy = ''u2'', id' = ''ii''\<rparr>"

text \<open>
  A database holding the two events; its generator renders the n-th identifier as n
  letters, and it accepts no raw condition.
\<close>

definition example_db :: database where
  "example_db =
     \<lparr>events = [event_A, event_B], id_seq = 3,
      id_gen = (\<lambda>n. replicate n (CHR ''i'')),
      raw_condition = (\<lambda>sql bindings. None)\<rparr>"

definition empty_update :: UpdateEventBody where
  "empty_update =
     \<lparr>upd_tittle = None, upd_slug = None, upd_description = None, upd_location = None,
      upd_date = None, upd_time = None, upd_rsvpEndDate = None, upd_createdBy = None\<rparr>"

definition example_body :: EventBody where
  "example_body =
     \<lparr>tittle = ''Workshop'', slug = ''workshop'', description = ''Hands-on workshop'',
      location = ''SF'', date = ''2020-03-03'', time = ''09:00'',
      rsvpEndDate = ''2020-03-01'', createdBy = ''u3''\<rparr>"

text \<open>An environment that sets the required variables and names an environment off the list.\<close>

definition unlisted_env :: environment where
  "unlisted_env =
     [''NODE_ENV'' \<mapsto> ''banana'', ''DATABASE'' \<mapsto> ''events_db'',
      ''DATABASE_USER'' \<mapsto> ''postgres'', ''HOST'' \<mapsto> ''localhost'']"

section \<open>Facts about the composer\<close>

lemma pipe_append: "pipe (fs @ gs) x = pipe gs (pipe fs x)"
  by (induction fs arbitrary: x) simp_all

lemma pipe_foldl: "pipe fs x = foldl (\<lambda>query f. f query) x fs"
  by (induction fs arbitrary: x) simp_all

text \<open>The conditions the composed transform adds to a query, read off the five tests.\<close>

lemma composed_wheres:
  "qb_wheres (pipe (getQueryBuilderFunctions fb) query) =
     qb_wheres query @
     (if truthy (prop_of fb ''location'')
      then [WhereBasic (Some ''location'') (prop_of fb ''location'')] else []) @
     (if truthy (prop_of fb ''title'')
      then [WhereBasic None (prop_of fb ''title'')] else []) @
     (if truthy (prop_of fb ''date'')
      then [WhereBasic (Some ''date'') (prop_of fb ''date'')] else []) @
     (if truthy (prop_of fb ''rsvpEndDate'')
      then [WhereBasic (Some ''rsvpEndDate'') (prop_of fb ''date'')] else []) @
     (if truthy (prop_of fb ''q'')
      then [WhereRaw (''document @@ to_tsquery('' @ [CHR 0x27] @ interpolate (prop_of fb ''q'')
                        @ [CHR 0x27] @ '')'') []] else [])"
  by (simp add: getQueryBuilderFunctions_def push_def pipe_append filterbyField_def
      filterByDateEqualTo_def documentVector_def knex_where_def knex_whereRaw_def
      EventsFilterFields_def Let_def)

lemma composed_frame:
  "qb_table (pipe (getQueryBuilderFunctions fb) query) = qb_table query \<and>
   qb_offset (pipe (getQueryBuilderFunctions fb) query) = qb_offset query \<and>
   qb_limit (pipe (getQueryBuilderFunctions fb) query) = qb_limit query"
  by (simp add: getQueryBuilderFunctions_def push_def pipe_append filterbyField_def
      filterByDateEqualTo_def documentVector_def knex_where_def knex_whereRaw_def
      EventsFilterFields_def Let_def)

text \<open>The transforms depend on the properties of the filter body, not on their order.\<close>

lemma getQueryBuilderFunctions_property_order:
  assumes "distinct (map fst fb)" and "distinct (map fst fb')" and "set fb = set fb'"
  shows "getQueryBuilderFunctions fb' = getQueryBuilderFunctions fb"
proof -
  from assms have "map_of fb = map_of fb'"
    by (simp add: map_of_inject_set)
  then have "prop_of fb = prop_of fb'"
    by (simp add: prop_of_def fun_eq_iff)
  then show ?thesis
    by (simp add: getQueryBuilderFunctions_def)
qed

lemma base_query:
  "qb_wheres (knexInstance t) = [] \<and> qb_table (knexInstance t) = t \<and>
   qb_offset (knexInstance t) = None \<and> qb_limit (knexInstance t) = None"
  by (simp add: knexInstance_def)

lemma documentVector_text:
  "qb_wheres (documentVector (Some queryString) query) =
     qb_wheres query @
       [WhereRaw (''document @@ to_tsquery('' @ [CHR 0x27] @ queryString @ [CHR 0x27] @ '')'') []]"
  by (simp add: documentVector_def knex_whereRaw_def)

text \<open>
  Whatever the query string is, the condition \<^verbatim>\<open>documentVector\<close> adds carries it inside
  the SQL text and has no bindings.
\<close>

lemma documentVector_sublist:
  "\<exists>sql. last (qb_wheres (documentVector (Some queryString) query)) = WhereRaw sql [] \<and>
         sublist queryString sql"
proof -
  let ?sql = "(''document @@ to_tsquery('' @ [CHR 0x27]) @ queryString @ ([CHR 0x27] @ '')'')"
  have "last (qb_wheres (documentVector (Some queryString) query)) = WhereRaw ?sql []"
    by (simp add: documentVector_text)
  moreover have "sublist queryString ?sql"
    by (rule sublist_appendI)
  ultimately show ?thesis by blast
qed

section \<open>Facts about the storage and the resource\<close>

lemma index0_filter: "index0 (filter p xs) = find p xs"
  by (induction xs) simp_all

lemma index0_take1: "index0 (take (Suc 0) xs) = index0 xs"
  by (cases xs) simp_all

lemma index0_map: "index0 (map f xs) = map_option f (index0 xs)"
  by (cases xs) simp_all

lemma column_id: "column ''id'' = Some id'"
  by (simp add: column_def)

lemma selection_by_id:
  "selection db (knex_where (Some ''id'') (Some v) (knexInstance EVENTS_TABLE)) =
     Inr (\<lambda>row. id' row = v \<and> True)"
  by (simp add: selection_def knex_where_def knexInstance_def column_id)

lemma selection_first_by_id:
  "selection db (knex_first (knex_where (Some ''id'') (Some v) (knexInstance EVENTS_TABLE))) =
     Inr (\<lambda>row. id' row = v \<and> True)"
  by (simp add: selection_def knex_where_def knex_first_def knexInstance_def column_id)

lemma page_first:
  "page (knex_first query) rows =
     take (Suc 0) (case qb_offset query of None \<Rightarrow> rows | Some n \<Rightarrow> drop (nat n) rows)"
  by (simp add: page_def knex_first_def)

lemma paging_first_by_id:
  "paging_failure (knex_first (knex_where c v (knexInstance t))) = None"
  by (simp add: paging_failure_def knex_first_def knex_where_def knexInstance_def)

lemma offset_where_base: "qb_offset (knex_where c v (knexInstance t)) = None"
  by (simp add: knex_where_def knexInstance_def)

text \<open>Looking an event up by identifier gives the first row with that identifier, if any.\<close>

lemma getEvent_by_id: "getEvent db ID v = Inr (find (\<lambda>row. id' row = v) (events db))"
  by (simp add: getEvent_def truthy_object_def first_row_def select_rows_def
      selection_first_by_id paging_first_by_id page_first offset_where_base
      index0_take1 index0_filter Let_def)

text \<open>The storage never produces the resource's not-found error.\<close>

lemma compile_where_not_found: "compile_where db w \<noteq> Inl (EventNotFountError message code)"
  by (cases "(db, w)" rule: compile_where.cases) (auto split: option.splits)

lemma compile_wheres_not_found: "compile_wheres db ws \<noteq> Inl (EventNotFountError message code)"
  by (induction ws) (auto split: sum.splits simp: compile_where_not_found)

lemma selection_not_found: "selection db query \<noteq> Inl (EventNotFountError message code)"
  by (simp add: selection_def compile_wheres_not_found)

lemma select_rows_not_found: "select_rows db query \<noteq> Inl (EventNotFountError message code)"
proof (cases "selection db query")
  case (Inl e)
  with selection_not_found [of db query message code] show ?thesis
    by (auto simp add: select_rows_def)
next
  case (Inr p)
  then show ?thesis
    by (cases "paging_failure query") (simp_all add: select_rows_def)
qed

lemma first_row_not_found: "first_row db query \<noteq> Inl (EventNotFountError message code)"
proof (cases "select_rows db query")
  case (Inl e)
  with select_rows_not_found [of db query message code] show ?thesis
    by (auto simp add: first_row_def)
next
  case (Inr rows)
  then show ?thesis by (simp add: first_row_def)
qed

text \<open>No lookup ends with the resource's not-found error: the test before the throw never holds.\<close>

lemma getEvent_never_not_found: "getEvent db key v \<noteq> Inl (EventNotFountError message code)"
  by (simp add: getEvent_def truthy_object_def Let_def first_row_not_found)

lemma id_apply_update: "id' (apply_update body row) = id' row"
  by (simp add: apply_update_def)

lemma update_by_id:
  "has_assignment body \<Longrightarrow>
   update db body v =
     Inr (db\<lparr>events := map (\<lambda>row. if id' row = v then apply_update body row else row) (events db)\<rparr>,
          map_option (apply_update body) (find (\<lambda>row. id' row = v) (events db)))"
  by (simp add: update_def update_returning_def selection_by_id index0_map index0_filter)

lemma find_map_update:
  "find (\<lambda>row. id' row = v) (map (\<lambda>row. if id' row = v then apply_update body row else row) rows)
     = map_option (apply_update body) (find (\<lambda>row. id' row = v) rows)"
  by (induction rows) (simp_all add: id_apply_update)

lemma filter_others_update:
  "filter (\<lambda>row. id' row \<noteq> v)
     (map (\<lambda>row. if id' row = v then apply_update body row else row) rows) =
   filter (\<lambda>row. id' row \<noteq> v) rows"
  by (induction rows) (simp_all add: id_apply_update)

lemma delete_by_id:
  "delete db v = Inr (db\<lparr>events := filter (\<lambda>row. id' row \<noteq> v) (events db)\<rparr>)"
  by (simp add: delete_def delete_rows_def selection_by_id)

lemma create_fresh:
  "id_gen db (id_seq db) \<notin> set (map id' (events db)) \<Longrightarrow>
   create db body =
     Inr (db\<lparr>events := events db @ [new_row (id_gen db (id_seq db)) body],
             id_seq := Suc (id_seq db)\<rparr>,
          Some (new_row (id_gen db (id_seq db)) body))"
  by (simp add: create_def insert_returning_def knexInstance_def Let_def)

lemma find_append_fresh:
  "v \<notin> set (map id' rows) \<Longrightarrow> id' r = v \<Longrightarrow> find (\<lambda>row. id' row = v) (rows @ [r]) = Some r"
  by (induction rows) auto






lemma filterEvents_selected:
  "selection db (pipe (getQueryBuilderFunctions fb) (knexInstance EVENTS_TABLE)) = Inr p \<Longrightarrow>
   filterEvents db fb = Inr (filter p (events db))"
  by (simp add: filterEvents_def select_rows_def page_def paging_failure_def composed_frame
      base_query Let_def)

lemma filterEvents_rejected:
  "selection db (pipe (getQueryBuilderFunctions fb) (knexInstance EVENTS_TABLE)) = Inl e \<Longrightarrow>
   filterEvents db fb = Inl e"
  by (simp add: filterEvents_def select_rows_def Let_def)

lemma selection_composed:
  "selection db (pipe (getQueryBuilderFunctions fb) (knexInstance EVENTS_TABLE)) =
    (let ws = qb_wheres (pipe (getQueryBuilderFunctions fb) (knexInstance EVENTS_TABLE)) in
     if list_ex binds_undefined ws then Inl (QueryError UndefinedBinding)
     else compile_wheres db ws)"
  by (simp add: selection_def composed_frame base_query Let_def)

text \<open>
  A filter on the location alone, or on the date alone, returns exactly the rows whose
  column equals the value given.
\<close>

lemma filterEvents_location_only:
  "v \<noteq> [] \<Longrightarrow>
   filterEvents db [(''location'', v)] = Inr (filter (\<lambda>row. location row = v) (events db))"
  by (simp add: filterEvents_selected selection_composed composed_wheres base_query prop_of_def
      column_def)

lemma filterEvents_date_only:
  "v \<noteq> [] \<Longrightarrow>
   filterEvents db [(''date'', v)] = Inr (filter (\<lambda>row. date row = v) (events db))"
  by (simp add: filterEvents_selected selection_composed composed_wheres base_query prop_of_def
      column_def)

text \<open>
  A filter on the title alone names a column through a member the enum does not have,
  and the query is refused.
\<close>

lemma filterEvents_title_only:
  "filterEvents example_db [(''title'', ''Launch'')] =
     Inl (QueryError (UnknownColumn ''undefined''))"
  by (simp add: filterEvents_rejected selection_composed composed_wheres base_query prop_of_def)

section \<open>Facts about the configuration\<close>

lemma child_required_missing:
  "process_env key = None \<Longrightarrow>
   child key (joi_required rule) process_env = Inl (ConfigValidationError key AnyRequired)"
  by (simp add: child_def joi_required_def)

lemma child_default_absent:
  "process_env key = None \<Longrightarrow> child key (joi_default d rule) process_env = Inr d"
  by (simp add: child_def joi_default_def)

lemma child_required_empty:
  "process_env key = Some [] \<Longrightarrow> [] \<notin> set allowed \<Longrightarrow>
   child key (joi_required (joi_string allowed)) process_env = Inl (ConfigValidationError key StringEmpty)"
  by (simp add: child_def joi_required_def joi_string_def)

lemma config_required_missing:
  "process_env ''NODE_ENV'' = None \<or> process_env ''DATABASE'' = None \<or>
   process_env ''DATABASE_USER'' = None \<or> process_env ''HOST'' = None \<Longrightarrow>
   \<exists>key reason. config to_number process_env = Inl (ConfigValidationError key reason)"
  unfolding config_def envVarsSchema_def
  by (auto simp add: child_required_missing split: sum.splits) (metis config_error.exhaust)+

lemma config_defaults:
  "config to_number process_env = Inr c \<Longrightarrow>
   (process_env ''PORT'' = None \<longrightarrow> port c = 8080) \<and>
   (process_env ''TEST_DB'' = None \<longrightarrow> testDbName c = ''events_test_db'') \<and>
   (process_env ''DATABASE_DIALECT'' = None \<longrightarrow> dbDialect c = ''postgres'')"
  unfolding config_def envVarsSchema_def
  by (auto simp add: child_default_absent split: sum.splits)

section \<open>The claims\<close>

text \<open>
  C1. The claim: for a filter with exactly one of location, title, date and rsvpEndDate
  set, \<^verbatim>\<open>filterEvents\<close> returns exactly the rows whose column equals the value given.
  Evaluated on a filter with the rsvpEndDate field alone, over a table in which exactly
  one row has that rsvpEndDate: the condition the composer adds binds the filter's
  date field, which is undefined, the query is refused, and the row is not returned.
\<close>

theorem filterEvents_rsvpEndDate_only:
  "filterEvents example_db [(''rsvpEndDate'', ''2020-01-31'')] = Inl (QueryError UndefinedBinding) \<and>
   filter (\<lambda>row. rsvpEndDate row = ''2020-01-31'') (events example_db) = [event_B]"
  by (simp add: filterEvents_rejected selection_composed composed_wheres base_query prop_of_def
      example_db_def event_A_def event_B_def)

text \<open>
  C2. The claim: \<^verbatim>\<open>getEvent\<close> fails with the not-found error when no row matches, also
  after \<^verbatim>\<open>delete\<close> of the identifier looked up. Evaluated on lookups that match no row,
  by identifier, by slug, and by the identifier of a row just deleted: each resolves to
  \<^verbatim>\<open>undefined\<close>, and none fails.
\<close>

theorem getEvent_no_match_resolves_undefined:
  "getEvent example_db ID ''zzz'' = Inr None \<and>
   getEvent example_db SLUG ''no-such-slug'' = Inr None \<and>
   delete example_db ''i'' = Inr (example_db\<lparr>events := [event_B]\<rparr>) \<and>
   getEvent (example_db\<lparr>events := [event_B]\<rparr>) ID ''i'' = Inr None"
  by (simp add: getEvent_by_id delete_by_id example_db_def event_A_def event_B_def
      getEvent_def truthy_object_def first_row_def select_rows_def selection_def page_def
      paging_failure_def knex_first_def knex_where_def knexInstance_def column_def)

text \<open>
  C3. The claim: the free-text search predicate passes the search string as a bound
  parameter and never puts it into the query text. Evaluated on a search string that
  closes the quotation: the string is part of the SQL text of the condition, and the
  condition has no bindings.
\<close>

theorem documentVector_interpolates:
  "qb_wheres (documentVector (Some ''x') OR 1=1 --'') (knexInstance EVENTS_TABLE)) =
     [WhereRaw ''document @@ to_tsquery('x') OR 1=1 --')'' []]"
  by (simp add: documentVector_def knex_whereRaw_def knexInstance_def)

text \<open>
  C4. The claim: the composer appends, in the fixed order, a location equality, a title
  equality, a date equality, an rsvp-end-date equality and the free-text search, one for
  each field present, and folds them over the base query from left to right. Evaluated
  on a filter that gives the free-text query, the rsvpEndDate and the location, in that
  order: the conditions come in the fixed order, and the one on the rsvpEndDate column
  does not carry the rsvpEndDate given; it binds the date field, which is undefined.
\<close>

theorem composer_rsvpEndDate_condition:
  "qb_wheres (pipe (getQueryBuilderFunctions
                      [(''q'', ''jazz''), (''rsvpEndDate'', ''2020-01-31''), (''location'', ''NY'')])
                (knexInstance EVENTS_TABLE)) =
     [WhereBasic (Some ''location'') (Some ''NY''),
      WhereBasic (Some ''rsvpEndDate'') None,
      WhereRaw ''document @@ to_tsquery('jazz')'' []]"
  by (simp add: composed_wheres base_query prop_of_def)

text \<open>
  C5. For a filter body in which every field the composer reads is absent, the composer
  appends nothing, the composed transform is the identity on queries, and
  \<^verbatim>\<open>filterEvents\<close> returns every row of the table, without failure.
\<close>

theorem empty_filter_is_identity:
  "prop_of fb ''location'' = None \<and> prop_of fb ''title'' = None \<and> prop_of fb ''date'' = None \<and>
   prop_of fb ''rsvpEndDate'' = None \<and> prop_of fb ''q'' = None \<Longrightarrow>
   getQueryBuilderFunctions fb = [] \<and>
   pipe (getQueryBuilderFunctions fb) = (\<lambda>query. query) \<and>
   filterEvents db fb = Inr (events db)"
proof -
  assume absent: "prop_of fb ''location'' = None \<and> prop_of fb ''title'' = None \<and>
    prop_of fb ''date'' = None \<and> prop_of fb ''rsvpEndDate'' = None \<and> prop_of fb ''q'' = None"
  then have none: "getQueryBuilderFunctions fb = []"
    by (simp add: getQueryBuilderFunctions_def Let_def)
  then have ident: "pipe (getQueryBuilderFunctions fb) = (\<lambda>query. query)"
    by (simp add: fun_eq_iff)
  have "filterEvents db fb = Inr (events db)"
    by (simp add: filterEvents_def none select_rows_def selection_def page_def
        paging_failure_def knexInstance_def Let_def)
  with none ident show ?thesis by simp
qed

text \<open>The theorem at a concrete input.\<close>

theorem empty_filter_is_identity_witness:
  "prop_of [] ''location'' = None \<and> prop_of [] ''title'' = None \<and> prop_of [] ''date'' = None \<and>
   prop_of [] ''rsvpEndDate'' = None \<and> prop_of [] ''q'' = None \<and>
   getQueryBuilderFunctions [] = [] \<and>
   pipe (getQueryBuilderFunctions []) (knexInstance EVENTS_TABLE) = knexInstance EVENTS_TABLE \<and>
   filterEvents example_db [] = Inr [event_A, event_B]"
proof -
  have absent: "prop_of [] ''location'' = None \<and> prop_of [] ''title'' = None \<and>
    prop_of [] ''date'' = None \<and> prop_of [] ''rsvpEndDate'' = None \<and> prop_of [] ''q'' = None"
    by (simp add: prop_of_def)
  from absent empty_filter_is_identity [OF absent, of example_db]
  show ?thesis by (simp add: example_db_def)
qed




text \<open>
  C7, amended. For every update body with at least one field present and every
  identifier that an existing row has, \<^verbatim>\<open>update\<close> returns the updated row; a following
  \<^verbatim>\<open>getEvent\<close> by that identifier returns the same row; each field present in the body
  has the body's value, each field absent from it keeps its prior value, the identifier
  is unchanged, and the rows with another identifier are left as they were.
\<close>

theorem update_changes_only_present_fields:
  "has_assignment updateBody \<and> find (\<lambda>row. id' row = eventId) (events db) = Some old \<Longrightarrow>
   \<exists>db' new.
     update db updateBody eventId = Inr (db', Some new) \<and>
     getEvent db' ID eventId = Inr (Some new) \<and>
     id' new = id' old \<and>
     tittle new = (case upd_tittle updateBody of None \<Rightarrow> tittle old | Some v \<Rightarrow> v) \<and>
     slug new = (case upd_slug updateBody of None \<Rightarrow> slug old | Some v \<Rightarrow> v) \<and>
     description new = (case upd_description updateBody of None \<Rightarrow> description old | Some v \<Rightarrow> v) \<and>
     location new = (case upd_location updateBody of None \<Rightarrow> location old | Some v \<Rightarrow> v) \<and>
     date new = (case upd_date updateBody of None \<Rightarrow> date old | Some v \<Rightarrow> v) \<and>
     time new = (case upd_time updateBody of None \<Rightarrow> time old | Some v \<Rightarrow> v) \<and>
     rsvpEndDate new = (case upd_rsvpEndDate updateBody of None \<Rightarrow> rsvpEndDate old | Some v \<Rightarrow> v) \<and>
     createdBy new = (case upd_createdBy updateBody of None \<Rightarrow> createdBy old | Some v \<Rightarrow> v) \<and>
     filter (\<lambda>row. id' row \<noteq> eventId) (events db') =
       filter (\<lambda>row. id' row \<noteq> eventId) (events db)"
proof -
  assume a: "has_assignment updateBody \<and> find (\<lambda>row. id' row = eventId) (events db) = Some old"
  let ?db' = "db\<lparr>events := map (\<lambda>row. if id' row = eventId then apply_update updateBody row else row)
                             (events db)\<rparr>"
  let ?new = "apply_update updateBody old"
  from a have upd: "update db updateBody eventId = Inr (?db', Some ?new)"
    by (simp add: update_by_id)
  from a have get: "getEvent ?db' ID eventId = Inr (Some ?new)"
    by (simp add: getEvent_by_id find_map_update)
  have fields:
    "id' ?new = id' old \<and>
     tittle ?new = (case upd_tittle updateBody of None \<Rightarrow> tittle old | Some v \<Rightarrow> v) \<and>
     slug ?new = (case upd_slug updateBody of None \<Rightarrow> slug old | Some v \<Rightarrow> v) \<and>
     description ?new = (case upd_description updateBody of None \<Rightarrow> description old | Some v \<Rightarrow> v) \<and>
     location ?new = (case upd_location updateBody of None \<Rightarrow> location old | Some v \<Rightarrow> v) \<and>
     date ?new = (case upd_date updateBody of None \<Rightarrow> date old | Some v \<Rightarrow> v) \<and>
     time ?new = (case upd_time updateBody of None \<Rightarrow> time old | Some v \<Rightarrow> v) \<and>
     rsvpEndDate ?new = (case upd_rsvpEndDate updateBody of None \<Rightarrow> rsvpEndDate old | Some v \<Rightarrow> v) \<and>
     createdBy ?new = (case upd_createdBy updateBody of None \<Rightarrow> createdBy old | Some v \<Rightarrow> v)"
    by (simp add: apply_update_def assign_def)
  have others: "filter (\<lambda>row. id' row \<noteq> eventId) (events ?db') =
       filter (\<lambda>row. id' row \<noteq> eventId) (events db)"
    by (simp add: filter_others_update)
  from upd get fields others show ?thesis by blast
qed

text \<open>The theorem at a concrete input.\<close>

theorem update_changes_only_present_fields_witness:
  "has_assignment (empty_update\<lparr>upd_location := Some ''Boston''\<rparr>) \<and>
   find (\<lambda>row. id' row = ''i'') (events example_db) = Some event_A \<and>
   (\<exists>db' new.
      update example_db (empty_update\<lparr>upd_location := Some ''Boston''\<rparr>) ''i'' = Inr (db', Some new) \<and>
      getEvent db' ID ''i'' = Inr (Some new) \<and>
      location new = ''Boston'' \<and> tittle new = ''Launch'' \<and> date new = ''2020-01-01'')"
proof -
  have h: "has_assignment (empty_update\<lparr>upd_location := Some ''Boston''\<rparr>) \<and>
    find (\<lambda>row. id' row = ''i'') (events example_db) = Some event_A"
    by (simp add: has_assignment_def example_db_def event_A_def)
  from update_changes_only_present_fields [OF h]
  obtain db' new where
    r: "update example_db (empty_update\<lparr>upd_location := Some ''Boston''\<rparr>) ''i'' = Inr (db', Some new)"
       "getEvent db' ID ''i'' = Inr (Some new)"
       "tittle new = (case upd_tittle (empty_update\<lparr>upd_location := Some ''Boston''\<rparr>) of
                        None \<Rightarrow> tittle event_A | Some v \<Rightarrow> v)"
       "location new = (case upd_location (empty_update\<lparr>upd_location := Some ''Boston''\<rparr>) of
                        None \<Rightarrow> location event_A | Some v \<Rightarrow> v)"
       "date new = (case upd_date (empty_update\<lparr>upd_location := Some ''Boston''\<rparr>) of
                        None \<Rightarrow> date event_A | Some v \<Rightarrow> v)"
    by blast
  from r(3-5) have "location new = ''Boston'' \<and> tittle new = ''Launch'' \<and> date new = ''2020-01-01''"
    by (simp add: empty_update_def event_A_def)
  with h r(1,2) show ?thesis by blast
qed

text \<open>
  The claim as stated, for every partial update body, fails at the body with no field
  present: there is nothing to write, the update is refused, and no record is returned.
\<close>

theorem update_empty_body_refused:
  "find (\<lambda>row. id' row = ''i'') (events example_db) = Some event_A \<and>
   update example_db empty_update ''i'' = Inl (QueryError EmptyUpdate)"
  by (simp add: update_def update_returning_def has_assignment_def empty_update_def
      example_db_def event_A_def)

text \<open>
  C8. For every event body, when the identifier the storage generates is new to the
  table, \<^verbatim>\<open>create\<close> appends one row that carries the fields of the body and the generated
  identifier and returns that row; and whenever \<^verbatim>\<open>create\<close> returns, a following
  \<^verbatim>\<open>getEvent\<close> by the returned identifier returns a record equal to the one returned.
\<close>

theorem create_then_getEvent:
  "(id_gen db (id_seq db) \<notin> set (map id' (events db)) \<longrightarrow>
      (\<exists>db' created.
         create db eventBody = Inr (db', Some created) \<and>
         events db' = events db @ [created] \<and>
         id' created = id_gen db (id_seq db) \<and>
         tittle created = tittle eventBody \<and> slug created = slug eventBody \<and>
         description created = description eventBody \<and> location created = location eventBody \<and>
         date created = date eventBody \<and> time created = time eventBody \<and>
         rsvpEndDate created = rsvpEndDate eventBody \<and> createdBy created = createdBy eventBody \<and>
         getEvent db' ID (id' created) = Inr (Some created))) \<and>
   (\<forall>db' result. create db eventBody = Inr (db', result) \<longrightarrow>
      (\<exists>created. result = Some created \<and> getEvent db' ID (id' created) = Inr (Some created)))"
proof -
  let ?ident = "id_gen db (id_seq db)"
  let ?row = "new_row ?ident eventBody"
  let ?db' = "db\<lparr>events := events db @ [?row], id_seq := Suc (id_seq db)\<rparr>"
  have round: "getEvent ?db' ID (id' ?row) = Inr (Some ?row)" if "?ident \<notin> set (map id' (events db))"
    using that by (simp add: getEvent_by_id find_append_fresh new_row_def)
  have fresh: "\<exists>db' created.
         create db eventBody = Inr (db', Some created) \<and>
         events db' = events db @ [created] \<and>
         id' created = id_gen db (id_seq db) \<and>
         tittle created = tittle eventBody \<and> slug created = slug eventBody \<and>
         description created = description eventBody \<and> location created = location eventBody \<and>
         date created = date eventBody \<and> time created = time eventBody \<and>
         rsvpEndDate created = rsvpEndDate eventBody \<and> createdBy created = createdBy eventBody \<and>
         getEvent db' ID (id' created) = Inr (Some created)"
    if f: "?ident \<notin> set (map id' (events db))"
  proof (intro exI [of _ ?db'] exI [of _ ?row] conjI)
    show "create db eventBody = Inr (?db', Some ?row)"
      using f by (rule create_fresh)
    show "getEvent ?db' ID (id' ?row) = Inr (Some ?row)"
      using f by (rule round)
  qed (simp_all add: new_row_def)
  have any: "\<exists>created. result = Some created \<and> getEvent db' ID (id' created) = Inr (Some created)"
    if c: "create db eventBody = Inr (db', result)" for db' result
  proof (cases "?ident \<in> set (map id' (events db))")
    case True
    with c show ?thesis
      by (simp add: create_def insert_returning_def knexInstance_def Let_def)
  next
    case False
    with c create_fresh [OF False, of eventBody] have "db' = ?db'" "result = Some ?row"
      by simp_all
    with round [OF False] show ?thesis by simp
  qed
  from fresh any show ?thesis by blast
qed

text \<open>The theorem at a concrete input.\<close>

theorem create_then_getEvent_witness:
  "id_gen example_db (id_seq example_db) \<notin> set (map id' (events example_db)) \<and>
   (\<exists>db' created.
      create example_db example_body = Inr (db', Some created) \<and>
      events db' = [event_A, event_B, created] \<and>
      id' created = ''iii'' \<and> tittle created = ''Workshop'' \<and>
      getEvent db' ID ''iii'' = Inr (Some created))"
proof -
  have f: "id_gen example_db (id_seq example_db) \<notin> set (map id' (events example_db))"
    by (simp add: example_db_def event_A_def event_B_def numeral_3_eq_3)
  have g: "id_gen example_db (id_seq example_db) = ''iii''"
    by (simp add: example_db_def numeral_3_eq_3)
  from create_then_getEvent [of example_db example_body] f
  obtain db' created where
    r: "create example_db example_body = Inr (db', Some created)"
       "events db' = events example_db @ [created]"
       "id' created = id_gen example_db (id_seq example_db)"
       "tittle created = tittle example_body"
       "getEvent db' ID (id' created) = Inr (Some created)"
    by blast
  from r(2) have "events db' = [event_A, event_B, created]"
    by (simp add: example_db_def)
  moreover from r(3) g have "id' created = ''iii''" by simp
  moreover from r(4) have "tittle created = ''Workshop''" by (simp add: example_body_def)
  moreover from r(5) r(3) g have "getEvent db' ID ''iii'' = Inr (Some created)" by simp
  ultimately show ?thesis using f r(1) by blast
qed



text \<open>
  C10. The claim: loading the configuration fails when \<^verbatim>\<open>NODE_ENV\<close> is not one of
  development, production, test and staging. Evaluated on an environment that sets the
  required variables and gives \<^verbatim>\<open>NODE_ENV\<close> a value off that list: validation succeeds,
  the configuration carries the value, and the defaults are applied.
\<close>

theorem config_accepts_unlisted_NODE_ENV:
  "''banana'' \<notin> set [''development'', ''production'', ''test'', ''staging''] \<and>
   config (\<lambda>s. None) unlisted_env =
     Inr \<lparr>env = ''banana'', port = 8080 :: int, dbName = ''events_db'',
          testDbName = ''events_test_db'', dbUsername = ''postgres'', dbDialect = ''postgres'',
          dbPassword = None, databaseUrl = None, host = ''localhost''\<rparr>"
  by (simp add: config_def envVarsSchema_def child_def joi_required_def joi_default_def
      joi_string_def unlisted_env_def)

end
